theory Spec2Isabelle
  imports Complex_Main
begin

section \<open>Python values, strings and exceptions\<close>

text \<open>
  The calculator of \<^verbatim>\<open>src/sparc/calculator.py\<close> is modelled function by function.
  Dictionaries whose keys are data (keyword arguments, \<^verbatim>\<open>results\<close>, the static
  results, one ionic step) are maps; a dictionary with a fixed set of keys of different
  kinds (the raw results of the bundle, its \<^verbatim>\<open>"out"\<close> entry) is a record of optional
  fields, where \<^verbatim>\<open>k in d\<close> is \<open>field d \<noteq> None\<close>. Exceptions are the left
  summand of a result; only the exception class is kept, not its message. Floating
  point numbers are idealised as reals.
\<close>

datatype error =
    EnvironmentError
  | CalculationFailed
  | KeyError
  | ValueError
  | TypeError
  | AttributeError
  | IndexError

datatype pyval =
    Str string
  | IntV int
  | FloatV real
  | ListV "pyval list"

datatype warning =
    Duplicate string
  | Invalid string
  | Inferred string

text \<open>
  \<^verbatim>\<open>str.lower\<close>, which the source uses only to compare with the ASCII words
  \<^verbatim>\<open>pbe\<close>, \<^verbatim>\<open>lda\<close>, \<^verbatim>\<open>ev\<close> and \<^verbatim>\<open>hartree\<close>: the 26 letters are mapped, every
  other character is kept.
\<close>

definition lower_char :: "char \<Rightarrow> char" where
  "lower_char c =
     (case map_of (zip ''ABCDEFGHIJKLMNOPQRSTUVWXYZ'' ''abcdefghijklmnopqrstuvwxyz'') c of
        Some d \<Rightarrow> d
      | None \<Rightarrow> c)"

definition lower :: "string \<Rightarrow> string" where
  "lower s = map lower_char s"

text \<open>
  \<^verbatim>\<open>str.upper\<close> follows Unicode, where it also changes letters outside ASCII
  and may change the length of a string. The sanitising below therefore takes it as
  a parameter. On ASCII text it is the following function, which the examples use.
\<close>

definition ascii_upper_char :: "char \<Rightarrow> char" where
  "ascii_upper_char c =
     (case map_of (zip ''abcdefghijklmnopqrstuvwxyz'' ''ABCDEFGHIJKLMNOPQRSTUVWXYZ'') c of
        Some d \<Rightarrow> d
      | None \<Rightarrow> c)"

definition ascii_upper :: "string \<Rightarrow> string" where
  "ascii_upper s = map ascii_upper_char s"

text \<open>
  \<^verbatim>\<open>str.strip()\<close> removes leading and trailing whitespace; on ASCII text these are
  the space, the controls 9 to 13 and the separators 28 to 31.
\<close>

definition is_space :: "char \<Rightarrow> bool" where
  "is_space c = (c \<in> set [CHR '' '', CHR 0x09, CHR 0x0A, CHR 0x0B, CHR 0x0C, CHR 0x0D,
                           CHR 0x1C, CHR 0x1D, CHR 0x1E, CHR 0x1F])"

definition strip :: "string \<Rightarrow> string" where
  "strip s = rev (dropWhile is_space (rev (dropWhile is_space s)))"

fun join :: "string \<Rightarrow> string list \<Rightarrow> string" where
  "join sep [] = []"
| "join sep [x] = x"
| "join sep (x # y # ys) = x @ sep @ join sep (y # ys)"

section \<open>Sanitising the keyword arguments\<close>

definition sparc_python_inputs :: "string list" where
  "sparc_python_inputs = [''xc'', ''h'', ''kpts'', ''convergence'', ''gpts'', ''nbands'', ''encut'']"

definition special_inputs :: "string list" where
  "special_inputs = sparc_python_inputs"

text \<open>
  \<^verbatim>\<open>_sanitize_kwargs\<close>: the keyword arguments are a dictionary, here the list of its
  items in iteration order. The validator \<^verbatim>\<open>defaultAPI.validate_input\<close> belongs to
  a module that is not part of the sources and is a parameter, and so is
  \<^verbatim>\<open>str.upper\<close>. The loop carries \<^verbatim>\<open>valid_params\<close>, \<^verbatim>\<open>special_params\<close> and the
  warnings emitted so far; the function returns them in the order of the source,
  \<^verbatim>\<open>valid_params\<close> first. The source also prints the keyword arguments, which has
  no part in the result.
\<close>

fun sanitize_loop ::
  "(string \<Rightarrow> 'v \<Rightarrow> bool) \<Rightarrow> (string \<Rightarrow> string) \<Rightarrow> (string \<times> 'v) list \<Rightarrow>
   (string \<rightharpoonup> 'v) \<times> (string \<rightharpoonup> 'v) \<times> warning list \<Rightarrow>
   (string \<rightharpoonup> 'v) \<times> (string \<rightharpoonup> 'v) \<times> warning list" where
  "sanitize_loop validate_input str_upper [] acc = acc"
| "sanitize_loop validate_input str_upper ((key, val) # rest) (valid_params, special_params, warned) =
     (if key \<in> set special_inputs then
        sanitize_loop validate_input str_upper rest
          (valid_params, special_params(key \<mapsto> val), warned)
      else
        (let key' = str_upper key;
             warned' = (if valid_params key' \<noteq> None then warned @ [Duplicate key'] else warned)
         in if validate_input key' val then
              sanitize_loop validate_input str_upper rest
                (valid_params(key' \<mapsto> val), special_params, warned')
            else
              sanitize_loop validate_input str_upper rest
                (valid_params, special_params, warned' @ [Invalid key'])))"

definition sanitize_kwargs ::
  "(string \<Rightarrow> 'v \<Rightarrow> bool) \<Rightarrow> (string \<Rightarrow> string) \<Rightarrow> (string \<times> 'v) list \<Rightarrow>
   (string \<rightharpoonup> 'v) \<times> (string \<rightharpoonup> 'v) \<times> warning list" where
  "sanitize_kwargs validate_input str_upper kwargs =
     sanitize_loop validate_input str_upper kwargs (Map.empty, Map.empty, [])"

text \<open>
  What the loop computes, as lists of items: the accepted items under their upper-case
  keys, and the items whose key is one of \<^verbatim>\<open>special_inputs\<close>.
\<close>

definition valid_items ::
  "(string \<Rightarrow> 'v \<Rightarrow> bool) \<Rightarrow> (string \<Rightarrow> string) \<Rightarrow> (string \<times> 'v) list \<Rightarrow>
   (string \<times> 'v) list" where
  "valid_items validate_input str_upper kwargs =
     map (\<lambda>(k, x). (str_upper k, x))
       (filter (\<lambda>(k, x). k \<notin> set special_inputs \<and> validate_input (str_upper k) x) kwargs)"

definition special_items :: "(string \<times> 'v) list \<Rightarrow> (string \<times> 'v) list" where
  "special_items kwargs = filter (\<lambda>(k, x). k \<in> set special_inputs) kwargs"

text \<open>
  A small validator on which the functions are run in the examples below: it knows
  a few SPARC keywords and checks the kind of their value.
\<close>

fun sample_validate_input :: "string \<Rightarrow> pyval \<Rightarrow> bool" where
  "sample_validate_input key (IntV n) = (key \<in> set [''NSTATES'', ''MAXIT_SCF''] \<and> 0 < n)"
| "sample_validate_input key (FloatV x) = (key = ''TOL_SCF'' \<and> 0 < x)"
| "sample_validate_input key (ListV xs) = (key \<in> set [''FD_GRID'', ''KPOINT_GRID''] \<and> length xs = 3)"
| "sample_validate_input key (Str s) = (key = ''EXCHANGE_CORRELATION'')"

section \<open>Converting the special parameters\<close>

text \<open>
  \<^verbatim>\<open>_convert_special_params\<close> works on a copy \<^verbatim>\<open>params\<close> of the special parameters
  and fills \<^verbatim>\<open>converted_sparc_params\<close>. Each block of the source is one function on
  the pair of the two dictionaries. \<^verbatim>\<open>xc.lower()\<close> exists for strings only.
  \<^verbatim>\<open>h2gpts\<close> (module \<^verbatim>\<open>utils\<close>) and the validator are parameters.
\<close>

record 'c atoms =
  cell :: 'c

type_synonym params = "string \<rightharpoonup> pyval"

definition bind_err :: "error + 'a \<Rightarrow> ('a \<Rightarrow> error + 'b) \<Rightarrow> error + 'b" where
  "bind_err r f = (case r of Inl e \<Rightarrow> Inl e | Inr x \<Rightarrow> f x)"

definition convert_xc :: "params \<times> params \<Rightarrow> error + params \<times> params" where
  "convert_xc pc =
     (case pc of (params, converted) \<Rightarrow>
        (case params ''xc'' of
           None \<Rightarrow> Inr (params, converted)
         | Some xc \<Rightarrow>
             (case xc of
                Str s \<Rightarrow>
                  if lower s = ''pbe'' then
                    Inr (params(''xc'' := None), converted(''EXCHANGE_CORRELATION'' \<mapsto> Str ''GGA_PBE''))
                  else if lower s = ''lda'' then
                    Inr (params(''xc'' := None), converted(''EXCHANGE_CORRELATION'' \<mapsto> Str ''LDA_PW''))
                  else Inr (params(''xc'' := None), converted)
              | _ \<Rightarrow> Inl AttributeError)))"

definition convert_h ::
  "(pyval \<Rightarrow> 'c \<Rightarrow> pyval) \<Rightarrow> 'c atoms option \<Rightarrow> params \<times> params \<Rightarrow> error + params \<times> params" where
  "convert_h h2gpts atoms pc =
     (case pc of (params, converted) \<Rightarrow>
        (case params ''h'' of
           None \<Rightarrow> Inr (params, converted)
         | Some h \<Rightarrow>
             if params ''gpts'' \<noteq> None then Inl KeyError
             else
               (case atoms of
                  None \<Rightarrow> Inl ValueError
                | Some a \<Rightarrow> Inr (params(''h'' := None, ''gpts'' \<mapsto> h2gpts h (cell a)), converted))))"

definition convert_gpts ::
  "(string \<Rightarrow> pyval \<Rightarrow> bool) \<Rightarrow> params \<times> params \<Rightarrow> error + params \<times> params" where
  "convert_gpts validate_input pc =
     (case pc of (params, converted) \<Rightarrow>
        (case params ''gpts'' of
           None \<Rightarrow> Inr (params, converted)
         | Some gpts \<Rightarrow>
             if validate_input ''FD_GRID'' gpts then
               Inr (params(''gpts'' := None), converted(''FD_GRID'' \<mapsto> gpts))
             else Inl ValueError))"

definition convert_kpts ::
  "(string \<Rightarrow> pyval \<Rightarrow> bool) \<Rightarrow> params \<times> params \<Rightarrow> error + params \<times> params" where
  "convert_kpts validate_input pc =
     (case pc of (params, converted) \<Rightarrow>
        (case params ''kpts'' of
           None \<Rightarrow> Inr (params, converted)
         | Some kpts \<Rightarrow>
             if validate_input ''KPOINT_GRID'' kpts then
               Inr (params(''kpts'' := None), converted(''KPOINT_GRID'' \<mapsto> kpts))
             else Inl ValueError))"

definition convert_nbands ::
  "(string \<Rightarrow> pyval \<Rightarrow> bool) \<Rightarrow> params \<times> params \<Rightarrow> error + params \<times> params" where
  "convert_nbands validate_input pc =
     (case pc of (params, converted) \<Rightarrow>
        (case params ''nbands'' of
           None \<Rightarrow> Inr (params, converted)
         | Some nbands \<Rightarrow>
             if validate_input ''NSTATES'' nbands then
               Inr (params(''nbands'' := None), converted(''NSTATES'' \<mapsto> nbands))
             else Inl ValueError))"

definition convert_special_params ::
  "(string \<Rightarrow> pyval \<Rightarrow> bool) \<Rightarrow> (pyval \<Rightarrow> 'c \<Rightarrow> pyval) \<Rightarrow> params \<Rightarrow> 'c atoms option \<Rightarrow>
   error + params" where
  "convert_special_params validate_input h2gpts special_params atoms =
     bind_err (convert_xc (special_params, Map.empty)) (\<lambda>pc.
     bind_err (convert_h h2gpts atoms pc) (\<lambda>pc.
     bind_err (convert_gpts validate_input pc) (\<lambda>pc.
     bind_err (convert_kpts validate_input pc) (\<lambda>pc.
     bind_err (convert_nbands validate_input pc) (\<lambda>pc.
     Inr (snd pc))))))"

text \<open>The blocks that follow the one for \<^verbatim>\<open>xc\<close>.\<close>

definition convert_after_xc ::
  "(string \<Rightarrow> pyval \<Rightarrow> bool) \<Rightarrow> (pyval \<Rightarrow> 'c \<Rightarrow> pyval) \<Rightarrow> 'c atoms option \<Rightarrow>
   params \<times> params \<Rightarrow> error + params" where
  "convert_after_xc validate_input h2gpts atoms pc =
     bind_err (convert_h h2gpts atoms pc) (\<lambda>pc.
     bind_err (convert_gpts validate_input pc) (\<lambda>pc.
     bind_err (convert_kpts validate_input pc) (\<lambda>pc.
     bind_err (convert_nbands validate_input pc) (\<lambda>pc.
     Inr (snd pc)))))"

text \<open>
  A grid-spacing conversion for the examples, on a cell given by its three edge
  lengths: the number of points along an edge is its length over the spacing, rounded up.
\<close>

fun sample_h2gpts :: "pyval \<Rightarrow> int list \<Rightarrow> pyval" where
  "sample_h2gpts (FloatV x) lengths = ListV (map (\<lambda>l. IntV \<lceil>of_int l / x\<rceil>) lengths)"
| "sample_h2gpts h lengths = ListV []"

section \<open>The calculator and the raw results\<close>

text \<open>
  One entry of an ionic step (\<^verbatim>\<open>{"value": ..., "unit": ...}\<close>), the
  \<^verbatim>\<open>"out"\<close> entry of the raw results, and the raw results themselves.
\<close>

record quantity =
  value_of :: real
  unit_of :: string

type_synonym ionic_step = "string \<rightharpoonup> quantity"

record out_results =
  ionic_steps :: "ionic_step list option"

record raw_result_dict =
  static :: "(string \<rightharpoonup> pyval) option"
  geopt :: "pyval option"
  aimd :: "pyval option"
  out :: "out_results option"

text \<open>
  The fields of \<^verbatim>\<open>SPARC\<close> that the methods below read or write, and the log of the
  warnings emitted.
\<close>

record sparc =
  command :: "string option"
  directory :: string
  label :: string
  raw_results :: raw_result_dict
  results :: "string \<rightharpoonup> pyval"
  proc :: "int option"
  warned :: "warning list"

text \<open>
  \<^verbatim>\<open>xs[i]\<close> on a list: a negative index counts from the end, an index out of range
  raises \<^verbatim>\<open>IndexError\<close>.
\<close>

definition list_item :: "'a list \<Rightarrow> int \<Rightarrow> error + 'a" where
  "list_item xs i =
     (let j = (if i < 0 then i + int (length xs) else i)
      in if j < 0 \<or> int (length xs) \<le> j then Inl IndexError else Inr (xs ! nat j))"

definition extract_static_results :: "sparc \<Rightarrow> sparc" where
  "extract_static_results s =
     (let static_results = (case static (raw_results s) of None \<Rightarrow> Map.empty | Some d \<Rightarrow> d);
          s1 = (case static_results ''free energy'' of
                  None \<Rightarrow> s
                | Some e \<Rightarrow> s\<lparr>results := (results s)(''energy'' \<mapsto> e, ''free energy'' \<mapsto> e)\<rparr>);
          s2 = (case static_results ''forces'' of
                  None \<Rightarrow> s1
                | Some f \<Rightarrow> s1\<lparr>results := (results s1)(''forces'' \<mapsto> f)\<rparr>);
          s3 = (case static_results ''stress'' of
                  None \<Rightarrow> s2
                | Some t \<Rightarrow> s2\<lparr>results := (results s2)(''stress'' \<mapsto> t)\<rparr>)
      in s3)"

definition get_last_ionic_step :: "sparc \<Rightarrow> error + ionic_step" where
  "get_last_ionic_step s =
     (let out_results = (case out (raw_results s) of None \<Rightarrow> \<lparr>ionic_steps = None\<rparr> | Some d \<Rightarrow> d);
          steps = (case ionic_steps out_results of None \<Rightarrow> [] | Some xs \<Rightarrow> xs)
      in if length steps > 0 then list_item steps (- 1) else Inr Map.empty)"

text \<open>\<^verbatim>\<open>Hartree\<close> is a constant of \<^verbatim>\<open>ase.units\<close> and a parameter here.\<close>

definition extract_out_results :: "real \<Rightarrow> sparc \<Rightarrow> error + sparc" where
  "extract_out_results Hartree s =
     bind_err (get_last_ionic_step s) (\<lambda>last_step.
       case last_step ''fermi level'' of
         None \<Rightarrow> Inr s
       | Some entry \<Rightarrow>
           (let val = value_of entry; unit = unit_of entry
            in if lower unit = ''ev'' then
                 Inr (s\<lparr>results := (results s)(''fermi'' \<mapsto> FloatV val)\<rparr>)
               else if lower unit = ''hartree'' then
                 Inr (s\<lparr>results := (results s)(''fermi'' \<mapsto> FloatV (val * Hartree))\<rparr>)
               else Inl ValueError))"

text \<open>
  \<^verbatim>\<open>read_results\<close>. The dictionary returned by the bundle is an argument.
  \<^verbatim>\<open>_extract_geopt_results\<close> and \<^verbatim>\<open>_extract_aimd_results\<close> are not defined in the
  calculator and are parameters. The third test of the source is
  \<^verbatim>\<open>"aimd" in self.raw_results()\<close>: it calls the dictionary, and calling a dictionary
  raises \<^verbatim>\<open>TypeError\<close> before the membership test is made.
\<close>

definition call_dict :: "raw_result_dict \<Rightarrow> error + raw_result_dict" where
  "call_dict d = Inl TypeError"

definition read_results ::
  "real \<Rightarrow> (sparc \<Rightarrow> error + sparc) \<Rightarrow> (sparc \<Rightarrow> error + sparc) \<Rightarrow> raw_result_dict \<Rightarrow> sparc \<Rightarrow>
   error + sparc" where
  "read_results Hartree extract_geopt_results extract_aimd_results raw_result_dict s =
     (let s1 = s\<lparr>raw_results := raw_result_dict\<rparr>
      in bind_err
           (if static (raw_results s1) \<noteq> None then Inr (extract_static_results s1)
            else if geopt (raw_results s1) \<noteq> None then extract_geopt_results s1
            else bind_err (call_dict (raw_results s1)) (\<lambda>called.
                   if aimd called \<noteq> None then extract_aimd_results s1
                   else Inl CalculationFailed))
           (extract_out_results Hartree))"

section \<open>Running the binary\<close>

text \<open>
  What the calculator sees of its surroundings: the environment variable
  \<^verbatim>\<open>ASE_SPARC_COMMAND\<close>, the answer of \<^verbatim>\<open>_find_default_sparc()\<close> (the \<^verbatim>\<open>sparc\<close>
  executable, the MPI launcher, and the text that \<^verbatim>\<open>num_cores\<close> is formatted to), and
  \<^verbatim>\<open>subprocess.run\<close>, which for a command line and a working directory gives the
  return code of the process, or \<open>None\<close> when it raises \<^verbatim>\<open>OSError\<close>.
\<close>

record environment =
  ASE_SPARC_COMMAND :: "string option"
  find_default_sparc :: "string option \<times> string option \<times> string"
  subprocess_run :: "string \<Rightarrow> string \<Rightarrow> int option"

text \<open>The argument \<^verbatim>\<open>extras\<close> is a string, or a list or tuple of strings.\<close>

datatype extras = Text string | Words "string list"

text \<open>
  \<^verbatim>\<open>_make_command\<close> first turns \<^verbatim>\<open>extras\<close> into one string (joined with blanks,
  or stripped); it returns the command line and leaves the resolved command in
  \<^verbatim>\<open>self.command\<close>.
\<close>

definition extras_text :: "extras \<Rightarrow> string" where
  "extras_text extras = (case extras of Words ws \<Rightarrow> join '' '' ws | Text t \<Rightarrow> strip t)"

definition make_command :: "environment \<Rightarrow> extras \<Rightarrow> sparc \<Rightarrow> error + string \<times> sparc" where
  "make_command env extras s =
     (let extras' = extras_text extras
      in bind_err
           (case command s of
              Some c \<Rightarrow> Inr (c, s)
            | None \<Rightarrow>
                (case ASE_SPARC_COMMAND env of
                   Some command_env \<Rightarrow> Inr (command_env, s\<lparr>command := Some command_env\<rparr>)
                 | None \<Rightarrow>
                     (case find_default_sparc env of (sparc_exe, mpi_exe, num_cores) \<Rightarrow>
                        (case sparc_exe of
                           None \<Rightarrow> Inl EnvironmentError
                         | Some exe \<Rightarrow>
                             (let command_env =
                                    (case mpi_exe of
                                       Some mpi \<Rightarrow> mpi @ '' -n '' @ num_cores @ '' '' @ exe
                                     | None \<Rightarrow> exe)
                              in Inr (command_env,
                                      s\<lparr>command := Some command_env,
                                        warned := warned s @ [Inferred command_env]\<rparr>))))))
           (\<lambda>(c, s'). Inr (c @ '' '' @ extras', s')))"

text \<open>
  \<^verbatim>\<open>execute\<close>. An \<^verbatim>\<open>OSError\<close> of \<^verbatim>\<open>subprocess.run\<close> is raised again as
  \<^verbatim>\<open>EnvironmentError\<close>. The calculator is returned when \<^verbatim>\<open>execute\<close> returns;
  what an exception leaves behind in it is not modelled.
\<close>

definition execute :: "environment \<Rightarrow> sparc \<Rightarrow> error + sparc" where
  "execute env s =
     (let extras = Text (''-name '' @ label s)
      in bind_err (make_command env extras s) (\<lambda>(command, s1).
           case subprocess_run env command (directory s1) of
             None \<Rightarrow> Inl EnvironmentError
           | Some errorcode \<Rightarrow>
               if errorcode > 0 then Inl CalculationFailed
               else Inr (s1\<lparr>proc := Some errorcode\<rparr>)))"

text \<open>Sample surroundings for the examples.\<close>

fun sample_run :: "string \<Rightarrow> string \<Rightarrow> int option" where
  "sample_run cmd cwd =
     (if cmd = ''mpirun -n 4 sparc -name SPARC'' then Some 0
      else if cmd = ''sparc -name SPARC'' then Some 1
      else if cmd = ''sparc-killed -name SPARC'' then Some (- 9)
      else None)"

definition sample_sparc :: sparc where
  "sample_sparc =
     \<lparr>command = None, directory = ''.'', label = ''SPARC'',
      raw_results = \<lparr>static = None, geopt = None, aimd = None, out = None\<rparr>,
      results = Map.empty, proc = None, warned = []\<rparr>"

definition with_steps :: "ionic_step list \<Rightarrow> sparc" where
  "with_steps steps =
     sample_sparc\<lparr>raw_results :=
       \<lparr>static = None, geopt = None, aimd = None, out = Some \<lparr>ionic_steps = Some steps\<rparr>\<rparr>\<rparr>"

definition fermi_step :: "real \<Rightarrow> string \<Rightarrow> ionic_step" where
  "fermi_step val unit = [''fermi level'' \<mapsto> \<lparr>value_of = val, unit_of = unit\<rparr>]"

definition sample_static :: sparc where
  "sample_static =
     sample_sparc\<lparr>raw_results :=
       \<lparr>static = Some [''free energy'' \<mapsto> FloatV (- 9), ''forces'' \<mapsto> ListV [FloatV 0]],
        geopt = None, aimd = None, out = None\<rparr>,
       results := [''stress'' \<mapsto> ListV [FloatV 3], ''fermi'' \<mapsto> FloatV 1]\<rparr>"

section \<open>Properties of the sanitising\<close>

lemma map_add_snoc: "V ++ map_of (rev ((K, x) # xs)) = (V(K \<mapsto> x)) ++ map_of (rev xs)"
  by (rule ext) (simp add: map_add_def split: option.splits)

lemma sanitize_loop_valid:
  "fst (sanitize_loop vi up kw (V, S, W)) = V ++ map_of (rev (valid_items vi up kw))"
proof (induction kw arbitrary: V S W)
  case Nil
  show ?case by (simp add: valid_items_def)
next
  case (Cons a kw)
  obtain k x where a: "a = (k, x)" by (cases a)
  have step: "valid_items vi up ((k, x) # kw) =
      (if k \<notin> set special_inputs \<and> vi (up k) x then (up k, x) # valid_items vi up kw
       else valid_items vi up kw)"
    by (simp add: valid_items_def)
  show ?case
    unfolding a step by (simp add: Let_def Cons.IH map_add_snoc fun_upd_def del: map_of.simps rev.simps)
qed

lemma sanitize_loop_special:
  "fst (snd (sanitize_loop vi up kw (V, S, W))) = S ++ map_of (rev (special_items kw))"
proof (induction kw arbitrary: V S W)
  case Nil
  show ?case by (simp add: special_items_def)
next
  case (Cons a kw)
  obtain k x where a: "a = (k, x)" by (cases a)
  have step: "special_items ((k, x) # kw) =
      (if k \<in> set special_inputs then (k, x) # special_items kw else special_items kw)"
    by (simp add: special_items_def)
  show ?case
    unfolding a step by (simp add: Let_def Cons.IH map_add_snoc fun_upd_def del: map_of.simps rev.simps)
qed

lemma sanitize_loop_invalid:
  "Invalid K \<in> set (snd (snd (sanitize_loop vi up kw (V, S, W)))) \<longleftrightarrow>
     Invalid K \<in> set W \<or>
     (\<exists>(k, x) \<in> set kw. k \<notin> set special_inputs \<and> up k = K \<and> \<not> vi K x)"
proof (induction kw arbitrary: V S W)
  case Nil
  show ?case by simp
next
  case (Cons a kw)
  obtain k x where a: "a = (k, x)" by (cases a)
  show ?case
    unfolding a by (auto simp: Cons.IH Let_def)
qed

lemma sanitize_kwargs_maps:
  assumes "sanitize_kwargs vi up kw = (V, S, W)"
  shows "V = map_of (rev (valid_items vi up kw))" and "S = map_of (rev (special_items kw))"
    and "Invalid K \<in> set W \<longleftrightarrow>
           (\<exists>(k, x) \<in> set kw. k \<notin> set special_inputs \<and> up k = K \<and> \<not> vi K x)"
  using assms sanitize_loop_valid [of vi up kw Map.empty Map.empty "[]"]
    sanitize_loop_special [of vi up kw Map.empty Map.empty "[]"]
    sanitize_loop_invalid [of K vi up kw Map.empty Map.empty "[]"]
  by (simp_all add: sanitize_kwargs_def)

lemma dom_valid_items:
  "dom (map_of (rev (valid_items vi up kw))) =
     {up k | k x. (k, x) \<in> set kw \<and> k \<notin> set special_inputs \<and> vi (up k) x}"
  by (force simp: dom_map_of_conv_image_fst valid_items_def)

lemma dom_special_items:
  "dom (map_of (rev (special_items kw))) = {k \<in> fst ` set kw. k \<in> set special_inputs}"
  by (force simp: dom_map_of_conv_image_fst special_items_def)

lemma special_items_lookup:
  assumes "distinct (map fst kw)" and "(k, x) \<in> set kw" and "k \<in> set special_inputs"
  shows "map_of (rev (special_items kw)) k = Some x"
proof -
  have "distinct (map fst (special_items kw))"
    using assms(1) by (simp add: special_items_def distinct_map_filter)
  then have "distinct (map fst (rev (special_items kw)))"
    by (simp add: rev_map [symmetric])
  moreover have "(k, x) \<in> set (rev (special_items kw))"
    using assms(2,3) by (simp add: special_items_def)
  ultimately show ?thesis by (rule map_of_is_SomeI)
qed

lemma valid_items_distinct:
  assumes "distinct (map up (filter (\<lambda>k. k \<notin> set special_inputs) (map fst kw)))"
  shows "distinct (map fst (valid_items vi up kw))"
  using assms
proof (induction kw)
  case Nil
  show ?case by (simp add: valid_items_def)
next
  case (Cons a kw)
  obtain k x where a: "a = (k, x)" by (cases a)
  have sub: "fst ` set (valid_items vi up kw) \<subseteq>
      up ` set (filter (\<lambda>k. k \<notin> set special_inputs) (map fst kw))"
    by (force simp: valid_items_def)
  have step: "valid_items vi up ((k, x) # kw) =
      (if k \<notin> set special_inputs \<and> vi (up k) x then (up k, x) # valid_items vi up kw
       else valid_items vi up kw)"
    by (simp add: valid_items_def)
  from Cons show ?case
    unfolding a step using sub by (auto split: if_splits)
qed

lemma valid_items_lookup:
  assumes "distinct (map up (filter (\<lambda>k. k \<notin> set special_inputs) (map fst kw)))"
    and "(k, x) \<in> set kw" and "k \<notin> set special_inputs"
  shows "map_of (rev (valid_items vi up kw)) (up k) = (if vi (up k) x then Some x else None)"
proof (cases "vi (up k) x")
  case True
  have "distinct (map fst (rev (valid_items vi up kw)))"
    using valid_items_distinct [OF assms(1), of vi] by (simp add: rev_map [symmetric])
  moreover have "(up k, x) \<in> set (rev (valid_items vi up kw))"
    using assms(2,3) True by (force simp: valid_items_def)
  ultimately have "map_of (rev (valid_items vi up kw)) (up k) = Some x"
    by (rule map_of_is_SomeI)
  with True show ?thesis by simp
next
  case False
  have "up k \<notin> fst ` set (valid_items vi up kw)"
  proof
    assume "up k \<in> fst ` set (valid_items vi up kw)"
    then obtain k' x' where in': "(k', x') \<in> set kw" and ns: "k' \<notin> set special_inputs"
      and ok: "vi (up k') x'" and eq: "up k' = up k"
      by (force simp: valid_items_def)
    have inj: "inj_on up (set (filter (\<lambda>k. k \<notin> set special_inputs) (map fst kw)))"
      using assms(1) by (rule distinct_map [THEN iffD1, THEN conjunct2])
    have "k' = k"
      using inj eq in' ns assms(2,3) by (force dest!: inj_onD)
    have "distinct (filter (\<lambda>k. k \<notin> set special_inputs) (map fst kw))"
      using assms(1) by (rule distinct_map [THEN iffD1, THEN conjunct1])
    then have "distinct (map fst (filter (\<lambda>(k, x). k \<notin> set special_inputs) kw))"
      by (simp add: filter_map comp_def case_prod_unfold)
    then have inj2: "inj_on fst (set (filter (\<lambda>(k, x). k \<notin> set special_inputs) kw))"
      by (simp add: distinct_map)
    have m1: "(k, x) \<in> set (filter (\<lambda>(k, x). k \<notin> set special_inputs) kw)"
      and m2: "(k, x') \<in> set (filter (\<lambda>(k, x). k \<notin> set special_inputs) kw)"
      using in' ns assms(2,3) \<open>k' = k\<close> by simp_all
    have "(k, x') = (k, x)"
      using inj_onD [OF inj2 _ m2 m1] by simp
    then have "x' = x" by simp
    with ok eq False show False by simp
  qed
  then show ?thesis using False by (simp add: map_of_eq_None_iff)
qed

text \<open>
  \<^verbatim>\<open>str.upper\<close> returns no string with a lower-case ASCII letter, so none of
  \<^verbatim>\<open>special_inputs\<close>. For an upper-casing with this property the two dictionaries
  have no key in common.
\<close>

lemma sanitize_kwargs_disjoint:
  assumes "sanitize_kwargs vi up kw = (V, S, W)"
    and "\<And>k. up k \<notin> set special_inputs"
  shows "dom V \<inter> dom S = {}"
proof -
  note maps = sanitize_kwargs_maps [OF assms(1)]
  have "dom S \<subseteq> set special_inputs"
    unfolding maps(2) dom_special_items by blast
  moreover have "dom V \<subseteq> range up"
    unfolding maps(1) dom_valid_items by blast
  ultimately show ?thesis using assms(2) by blast
qed

text \<open>
  Claim C3, as the code has it. Let the keyword arguments be a dictionary in which no
  two keys outside \<^verbatim>\<open>special_inputs\<close> have the same upper-case form under
  \<^verbatim>\<open>str.upper\<close>. Then every key of \<^verbatim>\<open>special_inputs\<close> is in \<^verbatim>\<open>special_params\<close>
  with its value. Every other key is in \<^verbatim>\<open>valid_params\<close> in upper case, with its
  value, if and only if the validator accepts the value; when the validator rejects it,
  its upper-case form is no key of \<^verbatim>\<open>valid_params\<close>, the key is no key of
  \<^verbatim>\<open>special_params\<close>, and a warning has been emitted. \<^verbatim>\<open>special_params\<close> holds
  the special keys and no other, \<^verbatim>\<open>valid_params\<close> the upper-case forms of the
  accepted keys and no other.
\<close>

theorem sanitize_kwargs_partition:
  assumes "distinct (map fst kwargs)"
    and "distinct (map str_upper (filter (\<lambda>k. k \<notin> set special_inputs) (map fst kwargs)))"
    and "sanitize_kwargs validate_input str_upper kwargs = (valid_params, special_params, emitted)"
  shows "(\<forall>(k, x) \<in> set kwargs.
            (k \<in> set special_inputs \<longrightarrow> special_params k = Some x) \<and>
            (k \<notin> set special_inputs \<longrightarrow>
               (valid_params (str_upper k) = Some x \<longleftrightarrow> validate_input (str_upper k) x) \<and>
               (valid_params (str_upper k) \<noteq> None \<longleftrightarrow> validate_input (str_upper k) x)) \<and>
            (k \<notin> set special_inputs \<and> \<not> validate_input (str_upper k) x \<longrightarrow>
               valid_params (str_upper k) = None \<and> special_params k = None \<and>
               Invalid (str_upper k) \<in> set emitted)) \<and>
         dom special_params = {k \<in> fst ` set kwargs. k \<in> set special_inputs} \<and>
         dom valid_params =
           {str_upper k | k x. (k, x) \<in> set kwargs \<and> k \<notin> set special_inputs \<and>
              validate_input (str_upper k) x}"
proof -
  note maps = sanitize_kwargs_maps [OF assms(3)]
  have domS: "dom special_params = {k \<in> fst ` set kwargs. k \<in> set special_inputs}"
    unfolding maps(2) by (rule dom_special_items)
  have domV: "dom valid_params =
      {str_upper k | k x. (k, x) \<in> set kwargs \<and> k \<notin> set special_inputs \<and>
         validate_input (str_upper k) x}"
    unfolding maps(1) by (rule dom_valid_items)
  have S_other: "special_params k = None" if "k \<notin> set special_inputs" for k
    using domS that by (auto simp: dom_def)
  have each: "(k \<in> set special_inputs \<longrightarrow> special_params k = Some x) \<and>
            (k \<notin> set special_inputs \<longrightarrow>
               (valid_params (str_upper k) = Some x \<longleftrightarrow> validate_input (str_upper k) x) \<and>
               (valid_params (str_upper k) \<noteq> None \<longleftrightarrow> validate_input (str_upper k) x)) \<and>
            (k \<notin> set special_inputs \<and> \<not> validate_input (str_upper k) x \<longrightarrow>
               valid_params (str_upper k) = None \<and> special_params k = None \<and>
               Invalid (str_upper k) \<in> set emitted)" if mem: "(k, x) \<in> set kwargs" for k x
  proof (cases "k \<in> set special_inputs")
    case True
    have "special_params k = Some x"
      unfolding maps(2) using assms(1) mem True by (rule special_items_lookup)
    with True show ?thesis by simp
  next
    case False
    have look: "valid_params (str_upper k) =
        (if validate_input (str_upper k) x then Some x else None)"
      unfolding maps(1) using assms(2) mem False by (rule valid_items_lookup)
    have "Invalid (str_upper k) \<in> set emitted" if "\<not> validate_input (str_upper k) x"
      unfolding maps(3) using mem False that by blast
    with False look S_other show ?thesis by simp
  qed
  from each domS domV show ?thesis by blast
qed

text \<open>
  The theorem at work on three keyword arguments: a special one, an accepted one and a
  rejected one.
\<close>

theorem sanitize_kwargs_partition_witness:
  "distinct (map fst [(''xc'', Str ''PBE''), (''maxit_scf'', IntV 100), (''Tol_Scf'', FloatV (- 1))]) \<and>
   distinct (map ascii_upper (filter (\<lambda>k. k \<notin> set special_inputs)
     (map fst [(''xc'', Str ''PBE''), (''maxit_scf'', IntV 100), (''Tol_Scf'', FloatV (- 1))]))) \<and>
   sanitize_kwargs sample_validate_input ascii_upper
     [(''xc'', Str ''PBE''), (''maxit_scf'', IntV 100), (''Tol_Scf'', FloatV (- 1))] =
     ([''MAXIT_SCF'' \<mapsto> IntV 100], [''xc'' \<mapsto> Str ''PBE''], [Invalid ''TOL_SCF'']) \<and>
   [''xc'' \<mapsto> Str ''PBE''] ''xc'' = Some (Str ''PBE'') \<and>
   [''MAXIT_SCF'' \<mapsto> IntV 100] (ascii_upper ''maxit_scf'') = Some (IntV 100) \<and>
   [''MAXIT_SCF'' \<mapsto> IntV 100] (ascii_upper ''Tol_Scf'') = None \<and>
   Invalid (ascii_upper ''Tol_Scf'') \<in> set [Invalid ''TOL_SCF''] \<and>
   dom [''xc'' \<mapsto> Str ''PBE''] = {''xc''}"
proof -
  let ?kw = "[(''xc'', Str ''PBE''), (''maxit_scf'', IntV 100), (''Tol_Scf'', FloatV (- 1))]"
  have h1: "distinct (map fst ?kw)" by simp
  have h2: "distinct (map ascii_upper (filter (\<lambda>k. k \<notin> set special_inputs) (map fst ?kw)))"
    by (simp add: special_inputs_def sparc_python_inputs_def ascii_upper_def ascii_upper_char_def)
  have h3: "sanitize_kwargs sample_validate_input ascii_upper ?kw =
      ([''MAXIT_SCF'' \<mapsto> IntV 100], [''xc'' \<mapsto> Str ''PBE''], [Invalid ''TOL_SCF''])"
    by (simp add: sanitize_kwargs_def special_inputs_def sparc_python_inputs_def
        ascii_upper_def ascii_upper_char_def)
  have up: "ascii_upper ''maxit_scf'' = ''MAXIT_SCF''" "ascii_upper ''Tol_Scf'' = ''TOL_SCF''"
    by (simp_all add: ascii_upper_def ascii_upper_char_def)
  have sp: "''xc'' \<in> set special_inputs" "''maxit_scf'' \<notin> set special_inputs"
    "''Tol_Scf'' \<notin> set special_inputs"
    by (simp_all add: special_inputs_def sparc_python_inputs_def)
  from sanitize_kwargs_partition [OF h1 h2 h3] h1 h2 h3 show ?thesis
    by (simp add: up sp)
qed

text \<open>
  Claim C3 as it is worded fails when two keys differ in case only: the value of
  \<^verbatim>\<open>MAXIT_SCF\<close> is rejected, and the key is in \<^verbatim>\<open>valid_params\<close> all the same, with
  the value that came under \<^verbatim>\<open>maxit_scf\<close>.
\<close>

theorem sanitize_kwargs_case_collision:
  "\<not> sample_validate_input (ascii_upper ''MAXIT_SCF'') (IntV 0) \<and>
   fst (sanitize_kwargs sample_validate_input ascii_upper
          [(''maxit_scf'', IntV 100), (''MAXIT_SCF'', IntV 0)])
     (ascii_upper ''MAXIT_SCF'') = Some (IntV 100)"
  by (simp add: sanitize_kwargs_def special_inputs_def sparc_python_inputs_def
      ascii_upper_def ascii_upper_char_def Let_def)

section \<open>Properties of the conversion\<close>

lemma convert_special_params_split:
  "convert_special_params vi h2g sp atoms =
     bind_err (convert_xc (sp, Map.empty)) (convert_after_xc vi h2g atoms)"
  by (simp add: convert_special_params_def convert_after_xc_def [abs_def])

lemmas convert_blocks =
  convert_h_def convert_gpts_def convert_kpts_def convert_nbands_def

lemma convert_after_xc_upd:
  assumes "k \<notin> {''FD_GRID'', ''KPOINT_GRID'', ''NSTATES''}"
  shows "convert_after_xc vi h2g atoms (p, c(k \<mapsto> x)) =
     (case convert_after_xc vi h2g atoms (p, c) of Inl e \<Rightarrow> Inl e | Inr d \<Rightarrow> Inr (d(k \<mapsto> x)))"
  using assms
  by (auto simp: convert_after_xc_def bind_err_def convert_blocks fun_upd_twist
      split: option.splits)

lemma convert_after_xc_other:
  assumes "k \<notin> {''FD_GRID'', ''KPOINT_GRID'', ''NSTATES''}"
    and "convert_after_xc vi h2g atoms (p, c) = Inr d"
  shows "d k = c k"
  using assms
  by (auto simp: convert_after_xc_def bind_err_def convert_blocks
      split: option.splits if_splits)


lemma convert_without_xc:
  "convert_special_params vi h2g (sp(''xc'' := None)) atoms =
     convert_after_xc vi h2g atoms (sp(''xc'' := None), Map.empty)"
  by (simp add: convert_special_params_split convert_xc_def bind_err_def)

text \<open>
  Claim C4. When \<^verbatim>\<open>xc\<close> is a string that is \<^verbatim>\<open>pbe\<close> up to case, the conversion
  gives what it gives without \<^verbatim>\<open>xc\<close>, with \<^verbatim>\<open>EXCHANGE_CORRELATION\<close> set to
  \<^verbatim>\<open>GGA_PBE\<close>; so every dictionary it returns maps \<^verbatim>\<open>EXCHANGE_CORRELATION\<close> to
  \<^verbatim>\<open>GGA_PBE\<close>. Likewise for \<^verbatim>\<open>lda\<close> and \<^verbatim>\<open>LDA_PW\<close>.
\<close>

theorem convert_special_params_xc:
  assumes "special_params ''xc'' = Some (Str s)"
  shows "(lower s = ''pbe'' \<longrightarrow>
            convert_special_params validate_input h2gpts special_params atoms =
              (case convert_special_params validate_input h2gpts (special_params(''xc'' := None)) atoms of
                 Inl e \<Rightarrow> Inl e
               | Inr d \<Rightarrow> Inr (d(''EXCHANGE_CORRELATION'' \<mapsto> Str ''GGA_PBE''))) \<and>
            (\<forall>d. convert_special_params validate_input h2gpts special_params atoms = Inr d \<longrightarrow>
               d ''EXCHANGE_CORRELATION'' = Some (Str ''GGA_PBE''))) \<and>
         (lower s = ''lda'' \<longrightarrow>
            convert_special_params validate_input h2gpts special_params atoms =
              (case convert_special_params validate_input h2gpts (special_params(''xc'' := None)) atoms of
                 Inl e \<Rightarrow> Inl e
               | Inr d \<Rightarrow> Inr (d(''EXCHANGE_CORRELATION'' \<mapsto> Str ''LDA_PW''))) \<and>
            (\<forall>d. convert_special_params validate_input h2gpts special_params atoms = Inr d \<longrightarrow>
               d ''EXCHANGE_CORRELATION'' = Some (Str ''LDA_PW'')))"
proof -
  have key: "convert_special_params validate_input h2gpts special_params atoms =
      (case convert_special_params validate_input h2gpts (special_params(''xc'' := None)) atoms of
         Inl e \<Rightarrow> Inl e
       | Inr d \<Rightarrow> Inr (d(''EXCHANGE_CORRELATION'' \<mapsto> Str v)))"
    if "convert_xc (special_params, Map.empty) =
          Inr (special_params(''xc'' := None), [''EXCHANGE_CORRELATION'' \<mapsto> Str v])" for v
    unfolding convert_without_xc
    by (simp add: convert_special_params_split that bind_err_def convert_after_xc_upd)
  have pbe: "convert_xc (special_params, Map.empty) =
      Inr (special_params(''xc'' := None), [''EXCHANGE_CORRELATION'' \<mapsto> Str ''GGA_PBE''])"
    if "lower s = ''pbe''"
    using assms that by (simp add: convert_xc_def)
  have lda: "convert_xc (special_params, Map.empty) =
      Inr (special_params(''xc'' := None), [''EXCHANGE_CORRELATION'' \<mapsto> Str ''LDA_PW''])"
    if "lower s = ''lda''"
    using assms that by (simp add: convert_xc_def)
  show ?thesis
    using key [OF pbe] key [OF lda] by (auto split: sum.splits)
qed

theorem convert_special_params_xc_witness:
  "[''xc'' \<mapsto> Str ''PBE''] ''xc'' = Some (Str ''PBE'') \<and> lower ''PBE'' = ''pbe'' \<and>
   convert_special_params sample_validate_input sample_h2gpts [''xc'' \<mapsto> Str ''PBE''] None =
     Inr [''EXCHANGE_CORRELATION'' \<mapsto> Str ''GGA_PBE''] \<and>
   [''xc'' \<mapsto> Str ''Lda''] ''xc'' = Some (Str ''Lda'') \<and> lower ''Lda'' = ''lda'' \<and>
   convert_special_params sample_validate_input sample_h2gpts [''xc'' \<mapsto> Str ''Lda''] None =
     Inr [''EXCHANGE_CORRELATION'' \<mapsto> Str ''LDA_PW'']"
proof -
  have l: "lower ''PBE'' = ''pbe''" and l': "lower ''Lda'' = ''lda''"
    by (simp_all add: lower_def lower_char_def)
  have a: "[''xc'' \<mapsto> Str ''PBE''] ''xc'' = Some (Str ''PBE'')"
    and a': "[''xc'' \<mapsto> Str ''Lda''] ''xc'' = Some (Str ''Lda'')"
    by simp_all
  have none: "convert_special_params sample_validate_input sample_h2gpts
      ([''xc'' \<mapsto> Str x](''xc'' := None)) None = Inr Map.empty" for x
    by (simp add: convert_special_params_def convert_xc_def convert_h_def convert_gpts_def
        convert_kpts_def convert_nbands_def bind_err_def)
  from convert_special_params_xc [where special_params = "[''xc'' \<mapsto> Str ''PBE'']"
      and s = "''PBE''" and validate_input = sample_validate_input and h2gpts = sample_h2gpts
      and atoms = None, OF a]
  have e: "convert_special_params sample_validate_input sample_h2gpts [''xc'' \<mapsto> Str ''PBE''] None =
      (case convert_special_params sample_validate_input sample_h2gpts
              ([''xc'' \<mapsto> Str ''PBE''](''xc'' := None)) None of
         Inl e \<Rightarrow> Inl e
       | Inr d \<Rightarrow> Inr (d(''EXCHANGE_CORRELATION'' \<mapsto> Str ''GGA_PBE'')))"
    using l by blast
  from convert_special_params_xc [where special_params = "[''xc'' \<mapsto> Str ''Lda'']"
      and s = "''Lda''" and validate_input = sample_validate_input and h2gpts = sample_h2gpts
      and atoms = None, OF a']
  have e': "convert_special_params sample_validate_input sample_h2gpts [''xc'' \<mapsto> Str ''Lda''] None =
      (case convert_special_params sample_validate_input sample_h2gpts
              ([''xc'' \<mapsto> Str ''Lda''](''xc'' := None)) None of
         Inl e \<Rightarrow> Inl e
       | Inr d \<Rightarrow> Inr (d(''EXCHANGE_CORRELATION'' \<mapsto> Str ''LDA_PW'')))"
    using l' by blast
  have run: "convert_special_params sample_validate_input sample_h2gpts [''xc'' \<mapsto> Str ''PBE''] None =
      Inr [''EXCHANGE_CORRELATION'' \<mapsto> Str ''GGA_PBE'']"
    unfolding e none by simp
  have run': "convert_special_params sample_validate_input sample_h2gpts [''xc'' \<mapsto> Str ''Lda''] None =
      Inr [''EXCHANGE_CORRELATION'' \<mapsto> Str ''LDA_PW'']"
    unfolding e' none by simp
  from a l run a' l' run' show ?thesis by (intro conjI)
qed

text \<open>
  Claim C10, as the code has it. When \<^verbatim>\<open>xc\<close> is a string that is neither
  \<^verbatim>\<open>pbe\<close> nor \<^verbatim>\<open>lda\<close> up to case, the block for \<^verbatim>\<open>xc\<close> raises nothing, removes
  the parameter and converts nothing: the conversion gives exactly what it gives
  without \<^verbatim>\<open>xc\<close>, no dictionary it returns has the key
  \<^verbatim>\<open>EXCHANGE_CORRELATION\<close>, and with \<^verbatim>\<open>xc\<close> as the only parameter it returns the
  empty dictionary.
\<close>

theorem convert_special_params_unknown_xc:
  assumes "special_params ''xc'' = Some (Str s)"
    and "lower s \<noteq> ''pbe''" and "lower s \<noteq> ''lda''"
  shows "convert_xc (special_params, Map.empty) = Inr (special_params(''xc'' := None), Map.empty) \<and>
         convert_special_params validate_input h2gpts special_params atoms =
           convert_special_params validate_input h2gpts (special_params(''xc'' := None)) atoms \<and>
         (\<forall>d. convert_special_params validate_input h2gpts special_params atoms = Inr d \<longrightarrow>
            d ''EXCHANGE_CORRELATION'' = None) \<and>
         convert_special_params validate_input h2gpts [''xc'' \<mapsto> Str s] atoms = Inr Map.empty"
proof -
  have xc: "convert_xc (special_params, Map.empty) = Inr (special_params(''xc'' := None), Map.empty)"
    using assms by (simp add: convert_xc_def)
  have eq: "convert_special_params validate_input h2gpts special_params atoms =
      convert_special_params validate_input h2gpts (special_params(''xc'' := None)) atoms"
    unfolding convert_without_xc by (simp add: convert_special_params_split xc bind_err_def)
  have no: "d ''EXCHANGE_CORRELATION'' = None"
    if "convert_special_params validate_input h2gpts special_params atoms = Inr d" for d
  proof -
    from that have "convert_after_xc validate_input h2gpts atoms
        (special_params(''xc'' := None), Map.empty) = Inr d"
      by (simp add: convert_special_params_split xc bind_err_def)
    then have "d ''EXCHANGE_CORRELATION'' = Map.empty ''EXCHANGE_CORRELATION''"
      by (rule convert_after_xc_other [rotated]) simp
    then show ?thesis by simp
  qed
  have only: "convert_special_params validate_input h2gpts [''xc'' \<mapsto> Str s] atoms = Inr Map.empty"
    using assms(2,3)
    by (simp add: convert_special_params_def convert_xc_def convert_h_def convert_gpts_def
        convert_kpts_def convert_nbands_def bind_err_def)
  from xc eq no only show ?thesis by blast
qed

theorem convert_special_params_unknown_xc_witness:
  "[''xc'' \<mapsto> Str ''SCAN'', ''nbands'' \<mapsto> IntV 8] ''xc'' = Some (Str ''SCAN'') \<and>
   lower ''SCAN'' \<noteq> ''pbe'' \<and> lower ''SCAN'' \<noteq> ''lda'' \<and>
   convert_special_params sample_validate_input sample_h2gpts
     [''xc'' \<mapsto> Str ''SCAN'', ''nbands'' \<mapsto> IntV 8] None = Inr [''NSTATES'' \<mapsto> IntV 8] \<and>
   [''NSTATES'' \<mapsto> IntV 8] ''EXCHANGE_CORRELATION'' = None"
proof -
  let ?sp = "[''xc'' \<mapsto> Str ''SCAN'', ''nbands'' \<mapsto> IntV 8]"
  have h1: "?sp ''xc'' = Some (Str ''SCAN'')" by simp
  have h2: "lower ''SCAN'' \<noteq> ''pbe''" and h3: "lower ''SCAN'' \<noteq> ''lda''"
    by (simp_all add: lower_def lower_char_def)
  have without: "convert_special_params sample_validate_input sample_h2gpts (?sp(''xc'' := None)) None =
      Inr [''NSTATES'' \<mapsto> IntV 8]"
    by (simp add: convert_special_params_def convert_xc_def convert_h_def convert_gpts_def
        convert_kpts_def convert_nbands_def bind_err_def)
  from convert_special_params_unknown_xc [where special_params = ?sp and s = "''SCAN''"
      and validate_input = sample_validate_input and h2gpts = sample_h2gpts and atoms = None,
      OF h1 h2 h3]
  have same: "convert_special_params sample_validate_input sample_h2gpts ?sp None =
      convert_special_params sample_validate_input sample_h2gpts (?sp(''xc'' := None)) None"
    by blast
  have run: "convert_special_params sample_validate_input sample_h2gpts ?sp None =
      Inr [''NSTATES'' \<mapsto> IntV 8]"
    unfolding same without ..
  have no: "[''NSTATES'' \<mapsto> IntV 8] ''EXCHANGE_CORRELATION'' = None"
    by simp
  from h1 h2 h3 run no show ?thesis by (intro conjI)
qed

text \<open>
  Claim C10 as it is worded, for every value of \<^verbatim>\<open>xc\<close> and with no error at all,
  fails twice. A value that is not a string has no \<^verbatim>\<open>lower\<close>, and the conversion
  raises \<^verbatim>\<open>AttributeError\<close>. And with a string that is neither \<^verbatim>\<open>pbe\<close> nor
  \<^verbatim>\<open>lda\<close> the other parameters can still raise: here \<^verbatim>\<open>h\<close> and \<^verbatim>\<open>gpts\<close>
  together give \<^verbatim>\<open>KeyError\<close>.
\<close>

theorem convert_special_params_unknown_xc_counterexample:
  "convert_special_params sample_validate_input sample_h2gpts [''xc'' \<mapsto> IntV 5] None =
     Inl AttributeError \<and>
   lower ''SCAN'' \<noteq> ''pbe'' \<and> lower ''SCAN'' \<noteq> ''lda'' \<and>
   convert_special_params sample_validate_input sample_h2gpts
     [''xc'' \<mapsto> Str ''SCAN'', ''h'' \<mapsto> FloatV (1 / 2),
      ''gpts'' \<mapsto> ListV [IntV 20, IntV 20, IntV 24]] None = Inl KeyError"
  by (simp add: convert_special_params_def convert_xc_def convert_h_def bind_err_def
      lower_def lower_char_def)







section \<open>Properties of the extraction of results\<close>

lemma list_item_last: "xs \<noteq> [] \<Longrightarrow> list_item xs (- 1) = Inr (last xs)"
  by (cases xs rule: rev_cases) (simp_all add: list_item_def Let_def)

text \<open>
  Claim C9. \<^verbatim>\<open>get_last_ionic_step\<close> always returns a dictionary: the empty one when
  the raw results have no \<^verbatim>\<open>"out"\<close> entry, when that entry has no
  \<^verbatim>\<open>"ionic_steps"\<close>, or when the list of steps is empty, and the last step otherwise.
  The index \<^verbatim>\<open>-1\<close> is never out of range.
\<close>

theorem get_last_ionic_step_total:
  "(\<exists>d. get_last_ionic_step s = Inr d) \<and>
   (out (raw_results s) = None \<longrightarrow> get_last_ionic_step s = Inr Map.empty) \<and>
   (\<forall>r. out (raw_results s) = Some r \<and> ionic_steps r = None \<longrightarrow>
      get_last_ionic_step s = Inr Map.empty) \<and>
   (\<forall>r. out (raw_results s) = Some r \<and> ionic_steps r = Some [] \<longrightarrow>
      get_last_ionic_step s = Inr Map.empty) \<and>
   (\<forall>r steps. out (raw_results s) = Some r \<and> ionic_steps r = Some steps \<and> steps \<noteq> [] \<longrightarrow>
      get_last_ionic_step s = Inr (last steps))"
  by (auto simp: get_last_ionic_step_def Let_def list_item_last split: option.splits)

theorem get_last_ionic_step_total_witness:
  "get_last_ionic_step sample_sparc = Inr Map.empty \<and>
   get_last_ionic_step (with_steps []) = Inr Map.empty \<and>
   get_last_ionic_step (with_steps [fermi_step 1 ''eV'', fermi_step (1 / 2) ''Hartree'']) =
     Inr (fermi_step (1 / 2) ''Hartree'')"
proof -
  have a: "out (raw_results sample_sparc) = None"
    by (simp add: sample_sparc_def)
  have b: "out (raw_results (with_steps xs)) = Some \<lparr>ionic_steps = Some xs\<rparr>" for xs
    by (simp add: with_steps_def)
  have 1: "get_last_ionic_step sample_sparc = Inr Map.empty"
    using get_last_ionic_step_total [of sample_sparc] a by blast
  have 2: "get_last_ionic_step (with_steps []) = Inr Map.empty"
    using get_last_ionic_step_total [of "with_steps []"] b [of "[]"] by simp
  have 3: "get_last_ionic_step (with_steps [fermi_step 1 ''eV'', fermi_step (1 / 2) ''Hartree'']) =
      Inr (fermi_step (1 / 2) ''Hartree'')"
    using get_last_ionic_step_total
      [of "with_steps [fermi_step 1 ''eV'', fermi_step (1 / 2) ''Hartree'']"]
      b [of "[fermi_step 1 ''eV'', fermi_step (1 / 2) ''Hartree'']"]
    by simp
  from 1 2 3 show ?thesis by blast
qed


lemma extract_static_results_absent:
  "static (raw_results s) = None \<Longrightarrow> extract_static_results s = s"
  by (simp add: extract_static_results_def)

lemma extract_static_results_results:
  assumes "static (raw_results s) = Some st"
  shows "results (extract_static_results s) k =
     (if (k = ''energy'' \<or> k = ''free energy'') \<and> st ''free energy'' \<noteq> None then st ''free energy''
      else if k = ''forces'' \<and> st ''forces'' \<noteq> None then st ''forces''
      else if k = ''stress'' \<and> st ''stress'' \<noteq> None then st ''stress''
      else results s k)"
  using assms by (auto simp: extract_static_results_def Let_def split: option.splits)

lemma extract_static_results_rest:
  "extract_static_results s = s\<lparr>results := results (extract_static_results s)\<rparr>"
  by (simp add: extract_static_results_def Let_def split: option.splits)

text \<open>
  Claim C7. \<^verbatim>\<open>_extract_static_results\<close> sets \<^verbatim>\<open>energy\<close> and \<^verbatim>\<open>free energy\<close> to
  the static free energy, \<^verbatim>\<open>forces\<close> to the static forces and \<^verbatim>\<open>stress\<close> to the
  static stress, each when the static results have the entry; a key whose entry is
  missing, every other key of \<^verbatim>\<open>results\<close>, and every other field of the calculator
  are unchanged. Without static results nothing changes.
\<close>

theorem extract_static_results_frame:
  "(static (raw_results s) = None \<longrightarrow> extract_static_results s = s) \<and>
   (\<forall>st. static (raw_results s) = Some st \<longrightarrow>
      (\<forall>e. st ''free energy'' = Some e \<longrightarrow>
         results (extract_static_results s) ''energy'' = Some e \<and>
         results (extract_static_results s) ''free energy'' = Some e) \<and>
      (st ''free energy'' = None \<longrightarrow>
         results (extract_static_results s) ''energy'' = results s ''energy'' \<and>
         results (extract_static_results s) ''free energy'' = results s ''free energy'') \<and>
      (\<forall>f. st ''forces'' = Some f \<longrightarrow> results (extract_static_results s) ''forces'' = Some f) \<and>
      (st ''forces'' = None \<longrightarrow>
         results (extract_static_results s) ''forces'' = results s ''forces'') \<and>
      (\<forall>t. st ''stress'' = Some t \<longrightarrow> results (extract_static_results s) ''stress'' = Some t) \<and>
      (st ''stress'' = None \<longrightarrow>
         results (extract_static_results s) ''stress'' = results s ''stress'') \<and>
      (\<forall>k. k \<notin> {''energy'', ''free energy'', ''forces'', ''stress''} \<longrightarrow>
         results (extract_static_results s) k = results s k)) \<and>
   extract_static_results s = s\<lparr>results := results (extract_static_results s)\<rparr>"
proof -
  have "extract_static_results s = s" if "static (raw_results s) = None"
    using that by (rule extract_static_results_absent)
  moreover have "extract_static_results s = s\<lparr>results := results (extract_static_results s)\<rparr>"
    by (rule extract_static_results_rest)
  moreover note extract_static_results_results [of s]
  ultimately show ?thesis by simp
qed

theorem extract_static_results_frame_witness:
  "static (raw_results sample_static) =
     Some [''free energy'' \<mapsto> FloatV (- 9), ''forces'' \<mapsto> ListV [FloatV 0]] \<and>
   results (extract_static_results sample_static) ''energy'' = Some (FloatV (- 9)) \<and>
   results (extract_static_results sample_static) ''free energy'' = Some (FloatV (- 9)) \<and>
   results (extract_static_results sample_static) ''forces'' = Some (ListV [FloatV 0]) \<and>
   results (extract_static_results sample_static) ''stress'' = Some (ListV [FloatV 3]) \<and>
   results (extract_static_results sample_static) ''fermi'' = Some (FloatV 1) \<and>
   static (raw_results sample_sparc) = None \<and>
   extract_static_results sample_sparc = sample_sparc"
proof -
  let ?st = "[''free energy'' \<mapsto> FloatV (- 9), ''forces'' \<mapsto> ListV [FloatV 0]]"
  have st: "static (raw_results sample_static) = Some ?st"
    by (simp add: sample_static_def)
  have none: "static (raw_results sample_sparc) = None"
    by (simp add: sample_sparc_def)
  have old: "results sample_static ''stress'' = Some (ListV [FloatV 3])"
    "results sample_static ''fermi'' = Some (FloatV 1)"
    by (simp_all add: sample_static_def)
  have v: "?st ''free energy'' = Some (FloatV (- 9))" "?st ''forces'' = Some (ListV [FloatV 0])"
    "?st ''stress'' = None"
    by simp_all
  have k: "''fermi'' \<notin> {''energy'', ''free energy'', ''forces'', ''stress''}"
    by simp
  note t = extract_static_results_frame [of sample_static, THEN conjunct2, THEN conjunct1,
      rule_format, OF st]
  have 1: "results (extract_static_results sample_static) ''energy'' = Some (FloatV (- 9))"
    and 2: "results (extract_static_results sample_static) ''free energy'' = Some (FloatV (- 9))"
    using t [THEN conjunct1, rule_format, OF v(1)] by simp_all
  have 3: "results (extract_static_results sample_static) ''forces'' = Some (ListV [FloatV 0])"
    using t [THEN conjunct2, THEN conjunct2, THEN conjunct1, rule_format, OF v(2)] .
  have 4: "results (extract_static_results sample_static) ''stress'' = Some (ListV [FloatV 3])"
    using t [THEN conjunct2, THEN conjunct2, THEN conjunct2, THEN conjunct2, THEN conjunct2,
        THEN conjunct1, rule_format, OF v(3)] old(1) by simp
  have 5: "results (extract_static_results sample_static) ''fermi'' = Some (FloatV 1)"
    using t [THEN conjunct2, THEN conjunct2, THEN conjunct2, THEN conjunct2, THEN conjunct2,
        THEN conjunct2, rule_format, OF k] old(2) by simp
  have 6: "extract_static_results sample_sparc = sample_sparc"
    using extract_static_results_frame [of sample_sparc, THEN conjunct1, rule_format, OF none] .
  from st 1 2 3 4 5 none 6 show ?thesis by (intro conjI)
qed


text \<open>
  Claim C6. Let \<^verbatim>\<open>last_step\<close> be the last ionic step. Without a \<^verbatim>\<open>"fermi level"\<close>
  entry \<^verbatim>\<open>_extract_out_results\<close> changes nothing and raises nothing. With one,
  \<^verbatim>\<open>results["fermi"]\<close> becomes the value when the unit is \<^verbatim>\<open>ev\<close> up to case, the
  value times \<^verbatim>\<open>Hartree\<close> when it is \<^verbatim>\<open>hartree\<close> up to case, and \<^verbatim>\<open>ValueError\<close>
  is raised for every other unit.
\<close>

theorem extract_out_results_fermi:
  assumes "get_last_ionic_step s = Inr last_step"
  shows "(last_step ''fermi level'' = None \<longrightarrow> extract_out_results Hartree s = Inr s) \<and>
         (\<forall>entry. last_step ''fermi level'' = Some entry \<longrightarrow>
            (lower (unit_of entry) = ''ev'' \<longrightarrow>
               extract_out_results Hartree s =
                 Inr (s\<lparr>results := (results s)(''fermi'' \<mapsto> FloatV (value_of entry))\<rparr>)) \<and>
            (lower (unit_of entry) = ''hartree'' \<longrightarrow>
               extract_out_results Hartree s =
                 Inr (s\<lparr>results := (results s)(''fermi'' \<mapsto> FloatV (value_of entry * Hartree))\<rparr>)) \<and>
            (lower (unit_of entry) \<noteq> ''ev'' \<and> lower (unit_of entry) \<noteq> ''hartree'' \<longrightarrow>
               extract_out_results Hartree s = Inl ValueError))"
  using assms by (simp add: extract_out_results_def bind_err_def Let_def)

theorem extract_out_results_fermi_witness:
  "extract_out_results 27 (with_steps [fermi_step (1 / 2) ''Hartree'', fermi_step 3 ''eV'']) =
     Inr ((with_steps [fermi_step (1 / 2) ''Hartree'', fermi_step 3 ''eV''])
            \<lparr>results := [''fermi'' \<mapsto> FloatV 3]\<rparr>) \<and>
   extract_out_results 27 (with_steps [fermi_step 3 ''eV'', fermi_step (1 / 2) ''Hartree'']) =
     Inr ((with_steps [fermi_step 3 ''eV'', fermi_step (1 / 2) ''Hartree''])
            \<lparr>results := [''fermi'' \<mapsto> FloatV (27 / 2)]\<rparr>) \<and>
   extract_out_results 27 (with_steps [fermi_step 3 ''Ry'']) = Inl ValueError \<and>
   extract_out_results 27 (with_steps [Map.empty]) = Inr (with_steps [Map.empty])"
proof -
  have last: "get_last_ionic_step (with_steps [a, b]) = Inr b"
    "get_last_ionic_step (with_steps [b]) = Inr b" for a b
    by (simp_all add: get_last_ionic_step_def with_steps_def list_item_def)
  have res: "results (with_steps xs) = Map.empty" for xs
    by (simp add: with_steps_def sample_sparc_def)
  have l: "lower ''eV'' = ''ev''" "lower ''Hartree'' = ''hartree''"
    "lower ''Ry'' \<noteq> ''ev''" "lower ''Ry'' \<noteq> ''hartree''"
    by (simp_all add: lower_def lower_char_def)
  have f: "fermi_step v u ''fermi level'' = Some \<lparr>value_of = v, unit_of = u\<rparr>" for v u
    by (simp add: fermi_step_def)
  have 1: "extract_out_results 27 (with_steps [fermi_step (1 / 2) ''Hartree'', fermi_step 3 ''eV'']) =
     Inr ((with_steps [fermi_step (1 / 2) ''Hartree'', fermi_step 3 ''eV''])
            \<lparr>results := [''fermi'' \<mapsto> FloatV 3]\<rparr>)"
    using extract_out_results_fermi [where Hartree = 27,
        OF last(1) [of "fermi_step (1 / 2) ''Hartree''" "fermi_step 3 ''eV''"]]
    by (simp add: f l res)
  have 2: "extract_out_results 27 (with_steps [fermi_step 3 ''eV'', fermi_step (1 / 2) ''Hartree'']) =
     Inr ((with_steps [fermi_step 3 ''eV'', fermi_step (1 / 2) ''Hartree''])
            \<lparr>results := [''fermi'' \<mapsto> FloatV (27 / 2)]\<rparr>)"
    using extract_out_results_fermi [where Hartree = 27,
        OF last(1) [of "fermi_step 3 ''eV''" "fermi_step (1 / 2) ''Hartree''"]]
    by (simp add: f l res)
  have 3: "extract_out_results 27 (with_steps [fermi_step 3 ''Ry'']) = Inl ValueError"
    using extract_out_results_fermi [where Hartree = 27, OF last(2) [of "fermi_step 3 ''Ry''"]]
    by (simp add: f l)
  have 4: "extract_out_results 27 (with_steps [Map.empty]) = Inr (with_steps [Map.empty])"
    using extract_out_results_fermi [where Hartree = 27, OF last(2) [of Map.empty]]
    by simp
  from 1 2 3 4 show ?thesis by blast
qed


lemma read_results_static:
  assumes "static raw \<noteq> None"
  shows "read_results Hartree eg ea raw s =
     extract_out_results Hartree (extract_static_results (s\<lparr>raw_results := raw\<rparr>))"
  using assms by (simp add: read_results_def bind_err_def)

lemma read_results_geopt:
  assumes "static raw = None" and "geopt raw \<noteq> None"
  shows "read_results Hartree eg ea raw s =
     bind_err (eg (s\<lparr>raw_results := raw\<rparr>)) (extract_out_results Hartree)"
  using assms by (simp add: read_results_def)

lemma read_results_otherwise:
  assumes "static raw = None" and "geopt raw = None"
  shows "read_results Hartree eg ea raw s = Inl TypeError"
  using assms by (simp add: read_results_def call_dict_def bind_err_def)


text \<open>
  Claim C1 at raw results with neither \<^verbatim>\<open>"static"\<close> nor \<^verbatim>\<open>"geopt"\<close>, whatever
  else they hold: \<^verbatim>\<open>read_results\<close> raises \<^verbatim>\<open>TypeError\<close>. The branch for
  \<^verbatim>\<open>"aimd"\<close> and the final \<^verbatim>\<open>CalculationFailed\<close> are never reached.
\<close>

theorem read_results_no_static_no_geopt:
  "read_results Hartree extract_geopt_results extract_aimd_results
     \<lparr>static = None, geopt = None, aimd = aimd_entry, out = out_entry\<rparr> s = Inl TypeError"
  by (simp add: read_results_def call_dict_def bind_err_def)


section \<open>Properties of the run command\<close>

text \<open>
  Claim C8. \<^verbatim>\<open>_make_command\<close> takes \<^verbatim>\<open>self.command\<close> when it is set; otherwise the
  environment variable \<^verbatim>\<open>ASE_SPARC_COMMAND\<close>; otherwise the executable found by
  \<^verbatim>\<open>_find_default_sparc\<close>, behind the MPI launcher and the number of cores when a
  launcher was found. With none of the three it raises \<^verbatim>\<open>EnvironmentError\<close>.
  Otherwise it returns the command, a blank and the text of \<^verbatim>\<open>extras\<close>, and the
  command is kept in \<^verbatim>\<open>self.command\<close>.
\<close>

theorem make_command_precedence:
  "(command s = Some c \<longrightarrow>
      make_command env extras s = Inr (c @ '' '' @ extras_text extras, s)) \<and>
   (command s = None \<and> ASE_SPARC_COMMAND env = Some ce \<longrightarrow>
      make_command env extras s =
        Inr (ce @ '' '' @ extras_text extras, s\<lparr>command := Some ce\<rparr>)) \<and>
   (command s = None \<and> ASE_SPARC_COMMAND env = None \<and>
    find_default_sparc env = (Some exe, Some mpi, n) \<longrightarrow>
      make_command env extras s =
        Inr ((mpi @ '' -n '' @ n @ '' '' @ exe) @ '' '' @ extras_text extras,
             s\<lparr>command := Some (mpi @ '' -n '' @ n @ '' '' @ exe),
               warned := warned s @ [Inferred (mpi @ '' -n '' @ n @ '' '' @ exe)]\<rparr>)) \<and>
   (command s = None \<and> ASE_SPARC_COMMAND env = None \<and>
    find_default_sparc env = (Some exe, None, n) \<longrightarrow>
      make_command env extras s =
        Inr (exe @ '' '' @ extras_text extras,
             s\<lparr>command := Some exe, warned := warned s @ [Inferred exe]\<rparr>)) \<and>
   (command s = None \<and> ASE_SPARC_COMMAND env = None \<and>
    find_default_sparc env = (None, m, n) \<longrightarrow>
      make_command env extras s = Inl EnvironmentError)"
  by (simp add: make_command_def bind_err_def Let_def)

theorem make_command_precedence_witness:
  "make_command
     \<lparr>ASE_SPARC_COMMAND = Some ''srun sparc'', find_default_sparc = (Some ''sparc'', None, ''1''),
      subprocess_run = sample_run\<rparr>
     (Text ''-name SPARC'') (sample_sparc\<lparr>command := Some ''mpirun -n 2 sparc''\<rparr>) =
     Inr (''mpirun -n 2 sparc -name SPARC'', sample_sparc\<lparr>command := Some ''mpirun -n 2 sparc''\<rparr>) \<and>
   make_command
     \<lparr>ASE_SPARC_COMMAND = Some ''srun sparc'', find_default_sparc = (Some ''sparc'', None, ''1''),
      subprocess_run = sample_run\<rparr>
     (Words [''-name'', ''SPARC'']) sample_sparc =
     Inr (''srun sparc -name SPARC'', sample_sparc\<lparr>command := Some ''srun sparc''\<rparr>) \<and>
   make_command
     \<lparr>ASE_SPARC_COMMAND = None, find_default_sparc = (Some ''sparc'', Some ''mpirun'', ''4''),
      subprocess_run = sample_run\<rparr>
     (Text ''-name SPARC'') sample_sparc =
     Inr (''mpirun -n 4 sparc -name SPARC'',
          sample_sparc\<lparr>command := Some ''mpirun -n 4 sparc'',
            warned := [Inferred ''mpirun -n 4 sparc'']\<rparr>) \<and>
   make_command
     \<lparr>ASE_SPARC_COMMAND = None, find_default_sparc = (Some ''sparc'', None, ''1''),
      subprocess_run = sample_run\<rparr>
     (Text '' -name SPARC  '') sample_sparc =
     Inr (''sparc -name SPARC'',
          sample_sparc\<lparr>command := Some ''sparc'', warned := [Inferred ''sparc'']\<rparr>) \<and>
   make_command
     \<lparr>ASE_SPARC_COMMAND = None, find_default_sparc = (None, Some ''mpirun'', ''4''),
      subprocess_run = sample_run\<rparr>
     (Text ''-name SPARC'') sample_sparc = Inl EnvironmentError"
proof -
  let ?env1 = "\<lparr>ASE_SPARC_COMMAND = Some ''srun sparc'',
      find_default_sparc = (Some ''sparc'', None, ''1''), subprocess_run = sample_run\<rparr>"
  let ?env3 = "\<lparr>ASE_SPARC_COMMAND = None,
      find_default_sparc = (Some ''sparc'', Some ''mpirun'', ''4''), subprocess_run = sample_run\<rparr>"
  let ?env4 = "\<lparr>ASE_SPARC_COMMAND = None,
      find_default_sparc = (Some ''sparc'', None, ''1''), subprocess_run = sample_run\<rparr>"
  let ?env5 = "\<lparr>ASE_SPARC_COMMAND = None,
      find_default_sparc = (None, Some ''mpirun'', ''4''), subprocess_run = sample_run\<rparr>"
  have t: "extras_text (Text ''-name SPARC'') = ''-name SPARC''"
    "extras_text (Words [''-name'', ''SPARC'']) = ''-name SPARC''"
    "extras_text (Text '' -name SPARC  '') = ''-name SPARC''"
    by (simp_all add: extras_text_def strip_def is_space_def)
  have c: "command sample_sparc = None" "warned sample_sparc = []"
    by (simp_all add: sample_sparc_def)
  have 1: "make_command ?env1 (Text ''-name SPARC'') (sample_sparc\<lparr>command := Some ''mpirun -n 2 sparc''\<rparr>) =
      Inr (''mpirun -n 2 sparc -name SPARC'', sample_sparc\<lparr>command := Some ''mpirun -n 2 sparc''\<rparr>)"
    using make_command_precedence [where s = "sample_sparc\<lparr>command := Some ''mpirun -n 2 sparc''\<rparr>"
        and c = "''mpirun -n 2 sparc''" and env = ?env1 and extras = "Text ''-name SPARC''"]
    by (simp add: t)
  have 2: "make_command ?env1 (Words [''-name'', ''SPARC'']) sample_sparc =
      Inr (''srun sparc -name SPARC'', sample_sparc\<lparr>command := Some ''srun sparc''\<rparr>)"
    using make_command_precedence [where s = sample_sparc and ce = "''srun sparc''"
        and env = ?env1 and extras = "Words [''-name'', ''SPARC'']"]
    by (simp add: t c)
  have 3: "make_command ?env3 (Text ''-name SPARC'') sample_sparc =
      Inr (''mpirun -n 4 sparc -name SPARC'',
           sample_sparc\<lparr>command := Some ''mpirun -n 4 sparc'',
             warned := [Inferred ''mpirun -n 4 sparc'']\<rparr>)"
    using make_command_precedence [where s = sample_sparc and exe = "''sparc''" and mpi = "''mpirun''"
        and n = "''4''" and env = ?env3 and extras = "Text ''-name SPARC''"]
    by (simp add: t c)
  have 4: "make_command ?env4 (Text '' -name SPARC  '') sample_sparc =
      Inr (''sparc -name SPARC'',
           sample_sparc\<lparr>command := Some ''sparc'', warned := [Inferred ''sparc'']\<rparr>)"
    using make_command_precedence [where s = sample_sparc and exe = "''sparc''"
        and n = "''1''" and env = ?env4 and extras = "Text '' -name SPARC  ''"]
    by (simp add: t c)
  have 5: "make_command ?env5 (Text ''-name SPARC'') sample_sparc = Inl EnvironmentError"
    using make_command_precedence [where s = sample_sparc and m = "Some ''mpirun''"
        and n = "''4''" and env = ?env5 and extras = "Text ''-name SPARC''"]
    by (simp add: c)
  from 1 2 3 4 5 show ?thesis by blast
qed


lemma make_command_error:
  "make_command env extras s = Inl err \<Longrightarrow> err = EnvironmentError"
  by (auto simp: make_command_def bind_err_def Let_def split: option.splits prod.splits)

text \<open>
  Claim C2. \<^verbatim>\<open>execute\<close> raises \<^verbatim>\<open>CalculationFailed\<close> exactly when the command was
  resolved, the subprocess ran and its return code is greater than zero. When the
  subprocess ran and its return code is zero or negative, \<^verbatim>\<open>execute\<close> returns, and the
  calculator has only the resolved command and the return code recorded.
\<close>

theorem execute_return_code:
  "(execute env s = Inl CalculationFailed \<longleftrightarrow>
      (\<exists>cmd s1 errorcode.
         make_command env (Text (''-name '' @ label s)) s = Inr (cmd, s1) \<and>
         subprocess_run env cmd (directory s1) = Some errorcode \<and> errorcode > 0)) \<and>
   (\<forall>cmd s1 errorcode.
      make_command env (Text (''-name '' @ label s)) s = Inr (cmd, s1) \<and>
      subprocess_run env cmd (directory s1) = Some errorcode \<and> \<not> errorcode > 0 \<longrightarrow>
        execute env s = Inr (s1\<lparr>proc := Some errorcode\<rparr>))"
proof -
  show ?thesis
  proof (cases "make_command env (Text (''-name '' @ label s)) s")
    case (Inl err)
    then have "err = EnvironmentError" by (rule make_command_error)
    with Inl show ?thesis by (simp add: execute_def bind_err_def)
  next
    case (Inr r)
    obtain cmd s1 where r: "r = (cmd, s1)" by (cases r)
    show ?thesis
      using Inr unfolding r
      by (cases "subprocess_run env cmd (directory s1)") (simp_all add: execute_def bind_err_def)
  qed
qed

theorem execute_return_code_witness:
  "execute \<lparr>ASE_SPARC_COMMAND = Some ''sparc'', find_default_sparc = (None, None, ''1''),
            subprocess_run = sample_run\<rparr> sample_sparc = Inl CalculationFailed \<and>
   sample_run ''sparc -name SPARC'' ''.'' = Some 1 \<and>
   execute \<lparr>ASE_SPARC_COMMAND = Some ''sparc-killed'', find_default_sparc = (None, None, ''1''),
            subprocess_run = sample_run\<rparr> sample_sparc =
     Inr (sample_sparc\<lparr>command := Some ''sparc-killed'', proc := Some (- 9)\<rparr>) \<and>
   sample_run ''sparc-killed -name SPARC'' ''.'' = Some (- 9)"
proof -
  let ?env1 = "\<lparr>ASE_SPARC_COMMAND = Some ''sparc'', find_default_sparc = (None, None, ''1''),
      subprocess_run = sample_run\<rparr>"
  let ?env2 = "\<lparr>ASE_SPARC_COMMAND = Some ''sparc-killed'', find_default_sparc = (None, None, ''1''),
      subprocess_run = sample_run\<rparr>"
  have l: "label sample_sparc = ''SPARC''" "command sample_sparc = None"
    by (simp_all add: sample_sparc_def)
  have t: "extras_text (Text ''-name SPARC'') = ''-name SPARC''"
    by (simp add: extras_text_def strip_def is_space_def)
  have m1: "make_command ?env1 (Text (''-name '' @ label sample_sparc)) sample_sparc =
      Inr (''sparc -name SPARC'', sample_sparc\<lparr>command := Some ''sparc''\<rparr>)"
    by (simp add: make_command_def bind_err_def l t)
  have m2: "make_command ?env2 (Text (''-name '' @ label sample_sparc)) sample_sparc =
      Inr (''sparc-killed -name SPARC'', sample_sparc\<lparr>command := Some ''sparc-killed''\<rparr>)"
    by (simp add: make_command_def bind_err_def l t)
  have d: "directory (sample_sparc\<lparr>command := x\<rparr>) = ''.''" for x
    by (simp add: sample_sparc_def)
  have r1: "sample_run ''sparc -name SPARC'' ''.'' = Some 1"
    and r2: "sample_run ''sparc-killed -name SPARC'' ''.'' = Some (- 9)"
    by simp_all
  have "execute ?env1 sample_sparc = Inl CalculationFailed"
    using execute_return_code [of ?env1 sample_sparc] m1 r1 d by auto
  moreover have "execute ?env2 sample_sparc =
      Inr (sample_sparc\<lparr>command := Some ''sparc-killed'', proc := Some (- 9)\<rparr>)"
    using execute_return_code [of ?env2 sample_sparc] m2 r2 d by auto
  ultimately show ?thesis using r1 r2 by blast
qed

end
